theory Spec2Isabelle
  imports Main "HOL-Library.Sublist"
begin

section \<open>The syntax trees the analysis reads\<close>

text \<open>
  The tools read Go source through \<^verbatim>\<open>go/parser\<close> and walk the resulting
  \<^verbatim>\<open>go/ast\<close> trees. The parser, the printer and the file system are the
  environment; the trees are data. Only the parts of a tree that the tools look at
  are kept.

  An expression or statement is a \<open>node\<close>. The node kinds the tools distinguish are
  identifiers, selector expressions, call expressions and function literals; every
  other kind (blocks, statements, operators, literals, ...) is \<open>Other\<close>, with the
  text \<^verbatim>\<open>go/format\<close> prints for it and its children in source order, which
  is the order \<^verbatim>\<open>ast.Inspect\<close> visits them in.
\<close>

datatype node =
    Ident string
  | SelectorExpr node string
  | CallExpr int node "node list"
  | FuncLit string node node
  | Other string "node list"

text \<open>
  \<^verbatim>\<open>ast.Inspect\<close>: the callback \<open>f\<close> sees a node and the state and says whether
  the walk goes below the node; the children follow in source order. (The closing
  call of the callback with nil, which the callbacks of the tools ignore, is left
  out.)
\<close>

fun Inspect :: "(node \<Rightarrow> 's \<Rightarrow> bool \<times> 's) \<Rightarrow> node \<Rightarrow> 's \<Rightarrow> 's" where
  "Inspect f (Ident n) s = snd (f (Ident n) s)"
| "Inspect f (SelectorExpr x sel) s =
     (case f (SelectorExpr x sel) s of
        (False, s') \<Rightarrow> s'
      | (True, s') \<Rightarrow> snd (f (Ident sel) (Inspect f x s')))"
| "Inspect f (CallExpr line target args) s =
     (case f (CallExpr line target args) s of
        (False, s') \<Rightarrow> s'
      | (True, s') \<Rightarrow> fold (Inspect f) args (Inspect f target s'))"
| "Inspect f (FuncLit printed ftype body) s =
     (case f (FuncLit printed ftype body) s of
        (False, s') \<Rightarrow> s'
      | (True, s') \<Rightarrow> Inspect f body (Inspect f ftype s'))"
| "Inspect f (Other printed children) s =
     (case f (Other printed children) s of
        (False, s') \<Rightarrow> s'
      | (True, s') \<Rightarrow> fold (Inspect f) children s')"

text \<open>
  A type expression, as the first \<^verbatim>\<open>exprToString\<close> (the one that returns an error)
  distinguishes them. \<open>TOther\<close> is any other expression; it carries what
  \<^verbatim>\<open>printer.Fprint\<close> gives for it, \<open>None\<close> when the printer fails.
\<close>

datatype type_expr =
    TIdent string
  | TSelectorExpr type_expr string
  | TStarExpr type_expr
  | TArrayType type_expr
  | TMapType type_expr type_expr
  | TFuncType
  | TOther "string option"

datatype error =
    PrinterError
  | CoverageFileError
  | GetwdError
  | StdPackagesError
  | GoModReadError
  | ModuleDeclNotFound
  | GoModNotFound
  | FailedToGetModulePath error
  | ReadFileError
  | ParseError
  | FunctionNotFound
  | FileDoesNotExist
  | FormatError

record Field =
  Names :: "string list"
  FieldType :: type_expr

text \<open>
  A function declaration. \<open>Recv\<close> is \<open>None\<close> for a nil receiver list and otherwise
  the receiver fields' types as \<^verbatim>\<open>go/format\<close> prints them; \<open>Body\<close> is
  \<open>None\<close> for a declaration without a body; \<open>PosLine\<close> and \<open>EndLine\<close> are the
  lines of \<^verbatim>\<open>Pos()\<close> and \<^verbatim>\<open>End()\<close>; \<open>Printed\<close> is the declaration as
  \<^verbatim>\<open>format.Node\<close> prints it, \<open>None\<close> when that fails.
\<close>

record FuncDecl =
  DeclName :: string
  Recv :: "string list option"
  Params :: "Field list"
  Results :: "Field list option"
  Body :: "node option"
  PosLine :: int
  EndLine :: int
  Printed :: "string option"

record ImportSpec =
  ImportAlias :: "string option"
  PathValue :: string

text \<open>A parsed file: its package name, its imports and its function declarations, in order.\<close>

record GoFile =
  PackageName :: string
  Imports :: "ImportSpec list"
  Decls :: "FuncDecl list"


section \<open>Listing functions (ListFunctions and its helpers)\<close>

record External =
  Name_ext :: string
  Type_ext :: string
  ImportPath_ext :: string

text \<open>
  \<^verbatim>\<open>FunctionInfo\<close> of the listing tools. The source holds the listed functions
  behind pointers; a pointer is modelled as the index of the function in the list
  of all listed functions.
\<close>

record FunctionInfo_lf =
  FileName :: string
  FuncName :: string
  Line_lf :: int
  PkgName_lf :: string
  Parameters_lf :: "string list"
  Returns_lf :: "string list"
  Externals :: "External list"
  FunctionCalls :: "nat list"

fun exprToString_lf :: "type_expr \<Rightarrow> error + string" where
  "exprToString_lf (TIdent n) = Inr n"
| "exprToString_lf (TSelectorExpr x sel) =
     (case exprToString_lf x of Inl e \<Rightarrow> Inl e | Inr es \<Rightarrow> Inr (es @ ''.'' @ sel))"
| "exprToString_lf (TStarExpr x) =
     (case exprToString_lf x of Inl e \<Rightarrow> Inl e | Inr es \<Rightarrow> Inr (''*'' @ es))"
| "exprToString_lf (TArrayType elt) =
     (case exprToString_lf elt of Inl e \<Rightarrow> Inl e | Inr es \<Rightarrow> Inr (''[]'' @ es))"
| "exprToString_lf (TMapType k v) =
     (case exprToString_lf k of Inl e \<Rightarrow> Inl e
      | Inr es \<Rightarrow>
          (case exprToString_lf v of Inl e \<Rightarrow> Inl e
           | Inr es2 \<Rightarrow> Inr (''map['' @ es @ '']'' @ es2)))"
| "exprToString_lf TFuncType = Inr ''func''"
| "exprToString_lf (TOther printed) =
     (case printed of None \<Rightarrow> Inl PrinterError | Some s \<Rightarrow> Inr s)"

text \<open>The loop over a field list shared by \<^verbatim>\<open>extractParameters\<close> and \<^verbatim>\<open>extractReturns\<close>.\<close>

fun extractFields :: "Field list \<Rightarrow> string list \<Rightarrow> error + string list" where
  "extractFields [] acc = Inr acc"
| "extractFields (p # ps) acc =
     (case exprToString_lf (FieldType p) of
        Inl e \<Rightarrow> Inl e
      | Inr typeStr \<Rightarrow>
          (if length (Names p) > 0
           then extractFields ps (acc @ map (\<lambda>name. name @ '' '' @ typeStr) (Names p))
           else extractFields ps (acc @ [typeStr])))"

definition extractParameters :: "FuncDecl \<Rightarrow> error + string list" where
  "extractParameters fn = extractFields (Params fn) []"



subsection \<open>Strings and paths of the Go library\<close>




text \<open>\<^verbatim>\<open>strings.Split\<close> with a separator of one character.\<close>

fun Split :: "string \<Rightarrow> char \<Rightarrow> string list" where
  "Split [] sep = [[]]"
| "Split (c # cs) sep =
     (if c = sep then [] # Split cs sep
      else (case Split cs sep of [] \<Rightarrow> [[c]] | l # ls \<Rightarrow> (c # l) # ls))"

text \<open>\<^verbatim>\<open>strings.Trim\<close> with a cutset of one character.\<close>

definition Trim :: "string \<Rightarrow> char \<Rightarrow> string" where
  "Trim s cutset = rev (dropWhile (\<lambda>c. c = cutset) (rev (dropWhile (\<lambda>c. c = cutset) s)))"

text \<open>\<^verbatim>\<open>filepath.Base\<close> with the separator \<^verbatim>\<open>/\<close>.\<close>

definition Base :: "string \<Rightarrow> string" where
  "Base path =
     (if path = [] then ''.''
      else let stripped = rev (dropWhile (\<lambda>c. c = CHR ''/'') (rev path));
               last_elem = rev (takeWhile (\<lambda>c. c \<noteq> CHR ''/'') (rev stripped))
           in if last_elem = [] then ''/'' else last_elem)"

text \<open>\<^verbatim>\<open>strings.Join\<close>.\<close>

fun joinStrings :: "string list \<Rightarrow> string \<Rightarrow> string" where
  "joinStrings [] sep = []"
| "joinStrings [x] sep = x"
| "joinStrings (x # y # ys) sep = x @ sep @ joinStrings (y # ys) sep"

text \<open>
  Paths are strings, with the separator \<^verbatim>\<open>/\<close> and no volume name.
  \<^verbatim>\<open>filepath.Clean\<close> goes through the elements of the path: an empty element and
  \<^verbatim>\<open>.\<close> are dropped, \<^verbatim>\<open>..\<close> removes the element before it when there is one
  that is not itself \<^verbatim>\<open>..\<close>, is dropped at the root of a rooted path and is kept
  otherwise. \<open>out\<close> holds the elements kept so far. The empty result is \<^verbatim>\<open>.\<close>.
\<close>

definition cleanStep :: "bool \<Rightarrow> string list \<Rightarrow> string \<Rightarrow> string list" where
  "cleanStep rooted out c =
     (if c = [] \<or> c = ''.'' then out
      else if c = ''..''
      then (if out \<noteq> [] \<and> last out \<noteq> ''..'' then butlast out
            else if rooted then out else out @ [''..''])
      else out @ [c])"

definition Clean :: "string \<Rightarrow> string" where
  "Clean path =
     (if path = [] then ''.''
      else let rooted = (hd path = CHR ''/'');
               out = foldl (cleanStep rooted) [] (Split path (CHR ''/''));
               r = (if rooted then ''/'' else []) @ joinStrings out ''/''
           in if r = [] then ''.'' else r)"




subsection \<open>Cleaning never lengthens a path\<close>


lemma Split_nonempty: "Split s sep \<noteq> []"
  by (induction s) (auto split: list.splits)


















subsection \<open>The module path (getModulePath)\<close>





subsection \<open>Resolving the calls of one function (analyzeFunctionCalls)\<close>

definition builtInFuncs :: "string list" where
  "builtInFuncs = [''len'', ''cap'', ''append'', ''copy'', ''close'', ''delete'', ''make'',
                   ''new'', ''panic'', ''recover'', ''string'', ''println'']"

text \<open>The key of a function in the table of internal functions: \<^verbatim>\<open>"%s.%s"\<close>.\<close>

definition internalKey :: "string \<Rightarrow> string \<Rightarrow> string" where
  "internalKey pkgName funcName = pkgName @ ''.'' @ funcName"

fun buildImportMap :: "ImportSpec list \<Rightarrow> (string \<rightharpoonup> string) \<Rightarrow> (string \<rightharpoonup> string)" where
  "buildImportMap [] importMap = importMap"
| "buildImportMap (imp # imps) importMap =
     (let importPath = Trim (PathValue imp) (CHR 0x22);
          alias = (case ImportAlias imp of Some n \<Rightarrow> n | None \<Rightarrow> Base importPath)
      in buildImportMap imps (importMap(alias \<mapsto> importPath)))"

text \<open>
  What the resolver knows while it walks one function: the table of internal
  functions, the import map of the file, the standard packages and the module path.
\<close>

record Resolver =
  internalFuncs :: "string \<rightharpoonup> nat"
  importMap :: "string \<rightharpoonup> string"
  stdPkgs :: "string list"
  modulePath :: string

definition addCall :: "nat \<Rightarrow> FunctionInfo_lf \<Rightarrow> FunctionInfo_lf" where
  "addCall calledFunc fn = fn\<lparr>FunctionCalls := FunctionCalls fn @ [calledFunc]\<rparr>"

definition addExternal :: "External \<Rightarrow> FunctionInfo_lf \<Rightarrow> FunctionInfo_lf" where
  "addExternal external fn = fn\<lparr>Externals := Externals fn @ [external]\<rparr>"

text \<open>
  The body of the callback at a call expression whose target is \<open>target\<close>: the
  switch on \<^verbatim>\<open>callExpr.Fun\<close>. The callback returns true on every path, so the
  walk always goes on below the call.
\<close>

fun visitCallExpr :: "Resolver \<Rightarrow> node \<Rightarrow> FunctionInfo_lf \<Rightarrow> FunctionInfo_lf" where
  "visitCallExpr r (Ident funcName) fn =
     (if funcName \<in> set builtInFuncs then fn
      else (case internalFuncs r (internalKey (PkgName_lf fn) funcName) of
              Some calledFunc \<Rightarrow> addCall calledFunc fn
            | None \<Rightarrow>
                addExternal \<lparr>Name_ext = funcName, Type_ext = [], ImportPath_ext = []\<rparr> fn))"
| "visitCallExpr r (SelectorExpr (Ident pkgAlias) funcName) fn =
     (case importMap r pkgAlias of
        None \<Rightarrow> fn
      | Some importPath \<Rightarrow>
          (if importPath \<in> set (stdPkgs r) then fn
           else if prefix (modulePath r) importPath
           then (case internalFuncs r (internalKey (Base importPath) funcName) of
                   Some calledFunc \<Rightarrow> addCall calledFunc fn
                 | None \<Rightarrow>
                     addExternal \<lparr>Name_ext = funcName, Type_ext = pkgAlias,
                                  ImportPath_ext = importPath\<rparr> fn)
           else addExternal \<lparr>Name_ext = funcName, Type_ext = pkgAlias,
                             ImportPath_ext = importPath\<rparr> fn))"
| "visitCallExpr r (SelectorExpr x funcName) fn = fn"
| "visitCallExpr r target fn = fn"

text \<open>
  \<^verbatim>\<open>ast.Inspect\<close> with the callback of \<^verbatim>\<open>analyzeFunctionCalls\<close>: every node is
  visited, parents before children, children in source order.
\<close>

fun inspectCalls :: "Resolver \<Rightarrow> node \<Rightarrow> FunctionInfo_lf \<Rightarrow> FunctionInfo_lf" where
  "inspectCalls r (Ident n) fn = fn"
| "inspectCalls r (SelectorExpr x sel) fn = inspectCalls r x fn"
| "inspectCalls r (CallExpr line target args) fn =
     fold (inspectCalls r) args (inspectCalls r target (visitCallExpr r target fn))"
| "inspectCalls r (FuncLit printed ftype body) fn =
     inspectCalls r body (inspectCalls r ftype fn)"
| "inspectCalls r (Other printed children) fn = fold (inspectCalls r) children fn"

text \<open>The callback of \<^verbatim>\<open>analyzeFunctionCalls\<close> itself; \<open>inspectCalls\<close> is the walk with it.\<close>

definition resolveCall :: "Resolver \<Rightarrow> node \<Rightarrow> FunctionInfo_lf \<Rightarrow> bool \<times> FunctionInfo_lf" where
  "resolveCall r n fn =
     (case n of
        CallExpr line target args \<Rightarrow> (True, visitCallExpr r target fn)
      | _ \<Rightarrow> (True, fn))"

text \<open>
  The second read of a file, by \<^verbatim>\<open>analyzeFunctionCalls\<close>: \<^verbatim>\<open>os.ReadFile\<close> fails,
  the parser fails, or the file parses.
\<close>

datatype reparse = ReadFails | ParseFails | Parsed GoFile

text \<open>The search for the declaration with the name and the line of the listed function.\<close>

fun findTarget :: "FuncDecl list \<Rightarrow> string \<Rightarrow> int \<Rightarrow> FuncDecl option" where
  "findTarget [] funcName line = None"
| "findTarget (f # decls) funcName line =
     (if DeclName f = funcName \<and> PosLine f = line then Some f
      else findTarget decls funcName line)"

text \<open>
  \<^verbatim>\<open>analyzeFunctionCalls\<close>. A target without a body makes \<^verbatim>\<open>ast.Inspect\<close>
  dereference a nil block: the run panics.
\<close>

datatype 'a outcome = Panic | Error error | Ok 'a

definition analyzeFunctionCalls ::
  "(string \<Rightarrow> reparse) \<Rightarrow> FunctionInfo_lf \<Rightarrow> (string \<rightharpoonup> nat) \<Rightarrow> string list \<Rightarrow> string
     \<Rightarrow> FunctionInfo_lf outcome" where
  "analyzeFunctionCalls reread fn funcs std modPath =
     (case reread (FileName fn) of
        ReadFails \<Rightarrow> Error ReadFileError
      | ParseFails \<Rightarrow> Error ParseError
      | Parsed file \<Rightarrow>
          (case findTarget (Decls file) (FuncName fn) (Line_lf fn) of
             None \<Rightarrow> Error FunctionNotFound
           | Some targetFunc \<Rightarrow>
               (case Body targetFunc of
                  None \<Rightarrow> Panic
                | Some body \<Rightarrow>
                    Ok (inspectCalls
                          \<lparr>internalFuncs = funcs,
                           importMap = buildImportMap (Imports file) Map.empty,
                           stdPkgs = std, modulePath = modPath\<rparr>
                          body fn))))"


subsection \<open>The two passes of ListFunctions\<close>











text \<open>
  A cleaned absolute path is the root followed by proper names: \<open>absPath cs\<close> is
  the path with the elements \<open>cs\<close>, and the ancestors of the directory
  \<open>absPath cs\<close>, itself included, are the directories \<open>absPath (take n cs)\<close>.
\<close>

definition properName :: "string \<Rightarrow> bool" where
  "properName c = (c \<noteq> [] \<and> CHR ''/'' \<notin> set c \<and> c \<noteq> ''.'' \<and> c \<noteq> ''..'')"

definition absPath :: "string list \<Rightarrow> string" where
  "absPath cs = ''/'' @ joinStrings cs ''/''"


section \<open>Call extraction and the call graph (functions.go, graph.go)\<close>

record ParameterInfo =
  Name_param :: string
  Type_param :: string
  ImportPath_param :: string
  ImportName_param :: string

record ReturnInfo =
  Type_ret :: string
  ImportPath_ret :: string
  ImportName_ret :: string

record FunctionInfo =
  RelativeFilePath :: string
  PkgName :: string
  Name :: string
  StructName :: string
  Parameters :: "ParameterInfo list"
  Returns :: "ReturnInfo list"
  LineNumberStart :: int
  LineNumberEnd :: int

datatype FunctionCallInfo =
  FunctionCallInfo
    (Function: string) (Line: int) (Calls: "FunctionCallInfo list") (FullExpr: string)
    (Package: string) (Receiver: string) (Arguments: "string list") (FilePath: string)
    (StructName_call: string)

text \<open>
  The second \<^verbatim>\<open>exprToString\<close>, which prints through \<^verbatim>\<open>format.Node\<close>:
  identifiers, selectors and calls print from their parts, the other nodes carry
  their text (empty when the printer fails).
\<close>

fun exprToString :: "node \<Rightarrow> string" where
  "exprToString (Ident n) = n"
| "exprToString (SelectorExpr x sel) = exprToString x @ ''.'' @ sel"
| "exprToString (CallExpr line target args) =
     exprToString target @ ''('' @ joinStrings (map exprToString args) '', '' @ '')''"
| "exprToString (FuncLit printed ftype body) = printed"
| "exprToString (Other printed children) = printed"

fun getFunctionName :: "node \<Rightarrow> string set \<Rightarrow> string \<times> string \<times> string" where
  "getFunctionName (Ident n) imports = (n, [], [])"
| "getFunctionName (SelectorExpr (Ident x) selector) imports =
     (if x \<in> imports then (selector, x, []) else (selector, [], x))"
| "getFunctionName (SelectorExpr x selector) imports = (selector, [], exprToString x)"
| "getFunctionName (FuncLit printed ftype body) imports = (''func'', [], [])"
| "getFunctionName e imports = (exprToString e, [], [])"

text \<open>
  The record \<^verbatim>\<open>extractCallInfo\<close> returns for the call of \<open>target\<close> with \<open>args\<close> on
  \<open>line\<close>, once the calls nested in the arguments are known. \<open>path\<close> is
  \<^verbatim>\<open>filepath.Join(projectRoot, filePath)\<close>.
\<close>

definition callInfo ::
  "string set \<Rightarrow> string \<Rightarrow> int \<Rightarrow> node \<Rightarrow> node list \<Rightarrow> FunctionCallInfo list
     \<Rightarrow> FunctionCallInfo" where
  "callInfo imports path line target args nestedCalls =
     (case getFunctionName target imports of
        (functionName, packageName, receiverName) \<Rightarrow>
          FunctionCallInfo functionName line nestedCalls
            (exprToString (CallExpr line target args)) packageName receiverName
            (map exprToString args) path [])"

text \<open>
  \<^verbatim>\<open>extractNestedCalls\<close>: \<^verbatim>\<open>ast.Inspect\<close> with a callback that records a call
  expression and does not go below it, and goes below every other node.
\<close>

fun extractNestedCalls :: "string set \<Rightarrow> string \<Rightarrow> node \<Rightarrow> FunctionCallInfo list" where
  "extractNestedCalls imports path (Ident n) = []"
| "extractNestedCalls imports path (SelectorExpr x sel) = extractNestedCalls imports path x"
| "extractNestedCalls imports path (CallExpr line target args) =
     [callInfo imports path line target args
        (concat (map (extractNestedCalls imports path) args))]"
| "extractNestedCalls imports path (FuncLit printed ftype body) =
     extractNestedCalls imports path ftype @ extractNestedCalls imports path body"
| "extractNestedCalls imports path (Other printed children) =
     concat (map (extractNestedCalls imports path) children)"

definition extractCallInfo ::
  "string set \<Rightarrow> string \<Rightarrow> int \<Rightarrow> node \<Rightarrow> node list \<Rightarrow> FunctionCallInfo" where
  "extractCallInfo imports path line target args =
     callInfo imports path line target args
       (concat (map (extractNestedCalls imports path) args))"

text \<open>
  The callback of \<^verbatim>\<open>GetFunctionCalls\<close> and of \<^verbatim>\<open>extractNestedCalls\<close> itself;
  \<open>extractNestedCalls\<close> is the walk with it.
\<close>

definition recordCall ::
  "string set \<Rightarrow> string \<Rightarrow> node \<Rightarrow> FunctionCallInfo list \<Rightarrow> bool \<times> FunctionCallInfo list" where
  "recordCall imports path n calls =
     (case n of
        CallExpr line target args \<Rightarrow>
          (False, calls @ [extractCallInfo imports path line target args])
      | _ \<Rightarrow> (True, calls))"

text \<open>
  The environment of the graph tools: the working directory, \<^verbatim>\<open>filepath.Join\<close>,
  whether \<^verbatim>\<open>os.Stat\<close> reports that a path does not exist, \<^verbatim>\<open>os.ReadFile\<close>, and
  the parser on a source text.
\<close>

record GraphWorld =
  Getwd_g :: "string option"
  JoinPath :: "string \<Rightarrow> string \<Rightarrow> string"
  NotExist :: "string \<Rightarrow> bool"
  ReadFile :: "string \<Rightarrow> string option"
  ParseSrc :: "string \<Rightarrow> GoFile option"

definition TrimPrefix :: "string \<Rightarrow> string \<Rightarrow> string" where
  "TrimPrefix s p = (if prefix p s then drop (length p) s else s)"

fun importNames :: "ImportSpec list \<Rightarrow> string set \<Rightarrow> string set" where
  "importNames [] imports = imports"
| "importNames (imp # imps) imports =
     importNames imps
       (insert (case ImportAlias imp of
                  Some n \<Rightarrow> n
                | None \<Rightarrow> Base (Trim (PathValue imp) (CHR 0x22))) imports)"

text \<open>The search of \<^verbatim>\<open>GetFunctionCalls\<close> for the declaration of \<open>fi\<close>.\<close>

fun findFuncDecl :: "FuncDecl list \<Rightarrow> FunctionInfo \<Rightarrow> FuncDecl option" where
  "findFuncDecl [] fi = None"
| "findFuncDecl (fd # decls) fi =
     (if DeclName fd = Name fi
      then (if StructName fi \<noteq> []
            then (case Recv fd of
                    Some (recvType # others) \<Rightarrow>
                      (if TrimPrefix recvType ''*'' = TrimPrefix (StructName fi) ''*''
                       then Some fd else findFuncDecl decls fi)
                  | _ \<Rightarrow> findFuncDecl decls fi)
            else (if Recv fd = None then Some fd else findFuncDecl decls fi))
      else findFuncDecl decls fi)"

definition GetFunctionCalls ::
  "GraphWorld \<Rightarrow> string \<Rightarrow> FunctionInfo \<Rightarrow> string \<Rightarrow> FunctionCallInfo list outcome" where
  "GetFunctionCalls w functionCode fi projectRoot =
     (case (if RelativeFilePath fi = []
            then (case Getwd_g w of
                    None \<Rightarrow> Inl GetwdError
                  | Some cwd \<Rightarrow>
                      (let root = (if projectRoot = [] then cwd else projectRoot);
                           fullPath = JoinPath w root (RelativeFilePath fi)
                       in if NotExist w fullPath then Inl FileDoesNotExist
                          else (case ReadFile w fullPath of
                                  None \<Rightarrow> Inl ReadFileError
                                | Some srcByte \<Rightarrow> Inr (srcByte, root))))
            else Inr (''package '' @ PkgName fi @ [CHR 0x0A] @ functionCode, projectRoot)) of
        Inl e \<Rightarrow> Error e
      | Inr (src, root) \<Rightarrow>
          (case ParseSrc w src of
             None \<Rightarrow> Error ParseError
           | Some file \<Rightarrow>
               (case findFuncDecl (Decls file) fi of
                  None \<Rightarrow> Error FunctionNotFound
                | Some funcDecl \<Rightarrow>
                    (case Body funcDecl of
                       None \<Rightarrow> Panic
                     | Some body \<Rightarrow>
                         Ok (extractNestedCalls (importNames (Imports file) {})
                               (JoinPath w root (RelativeFilePath fi)) body)))))"

text \<open>The search of \<^verbatim>\<open>GetFunctionWithComments\<close>, which ends at the first match.\<close>

fun findWithComments :: "FuncDecl list \<Rightarrow> FunctionInfo \<Rightarrow> FuncDecl option" where
  "findWithComments [] fi = None"
| "findWithComments (funcDecl # decls) fi =
     (if DeclName funcDecl \<noteq> Name fi then findWithComments decls fi
      else if StructName fi \<noteq> []
      then (case Recv funcDecl of
              Some (recvType # others) \<Rightarrow>
                (if TrimPrefix recvType ''*'' \<noteq> TrimPrefix (StructName fi) ''*''
                 then findWithComments decls fi else Some funcDecl)
            | _ \<Rightarrow> findWithComments decls fi)
      else (if Recv funcDecl \<noteq> None then findWithComments decls fi else Some funcDecl))"

definition GetFunctionWithComments ::
  "GraphWorld \<Rightarrow> FunctionInfo \<Rightarrow> string \<Rightarrow> error + string" where
  "GetFunctionWithComments w fi projectRoot =
     (let fullPath = JoinPath w projectRoot (RelativeFilePath fi)
      in if NotExist w fullPath then Inl FileDoesNotExist
         else (case ReadFile w fullPath of
                 None \<Rightarrow> Inl ReadFileError
               | Some src \<Rightarrow>
                   (case ParseSrc w src of
                      None \<Rightarrow> Inl ParseError
                    | Some file \<Rightarrow>
                        (case findWithComments (Decls file) fi of
                           None \<Rightarrow> Inl FunctionNotFound
                         | Some funcDecl \<Rightarrow>
                             (case Printed funcDecl of
                                None \<Rightarrow> Inl FormatError
                              | Some funcCode \<Rightarrow> Inr funcCode)))))"


subsection \<open>The call graph\<close>

text \<open>
  The nodes of the graph live behind pointers and point to each other. The model
  keeps them in an explicit heap: a pointer is an index into \<open>Heap\<close>, and the maps
  \<open>Nodes\<close>, \<open>Calls\<close> and \<open>CalledBy\<close> hold pointers.
\<close>

record FunctionNode =
  Name_node :: string
  Calls_node :: "string \<rightharpoonup> nat"
  CalledBy :: "string \<rightharpoonup> nat"

record CallGraph =
  Nodes :: "string \<rightharpoonup> nat"
  Heap :: "FunctionNode list"

definition getFunctionFullName :: "FunctionInfo \<Rightarrow> string" where
  "getFunctionFullName fi =
     (if StructName fi \<noteq> [] then StructName fi @ ''.'' @ Name fi else Name fi)"

text \<open>Allocating an empty node under \<open>name\<close>, when the graph has none there.\<close>

definition ensureNode :: "string \<Rightarrow> CallGraph \<Rightarrow> CallGraph" where
  "ensureNode name graph =
     (case Nodes graph name of
        Some existing \<Rightarrow> graph
      | None \<Rightarrow>
          \<lparr>Nodes = (Nodes graph)(name \<mapsto> length (Heap graph)),
           Heap = Heap graph @ [\<lparr>Name_node = name, Calls_node = Map.empty,
                                 CalledBy = Map.empty\<rparr>]\<rparr>)"

definition calledName :: "FunctionCallInfo \<Rightarrow> string" where
  "calledName call =
     (if Receiver call \<noteq> [] then Receiver call @ ''.'' @ Function call
      else if Package call \<noteq> [] then Package call @ ''.'' @ Function call
      else Function call)"

text \<open>
  The body of the loop over the calls of one function: \<open>node\<close> is the caller's
  pointer and \<open>funcFullName\<close> its key.
\<close>

definition addEdge :: "string \<Rightarrow> nat \<Rightarrow> CallGraph \<Rightarrow> FunctionCallInfo \<Rightarrow> CallGraph" where
  "addEdge funcFullName node graph call =
     (let calledFuncName = calledName call;
          g = ensureNode calledFuncName graph
      in (case Nodes g calledFuncName of
            None \<Rightarrow> g
          | Some calledNode \<Rightarrow>
              (let h1 = (Heap g)[node := (Heap g ! node)
                           \<lparr>Calls_node := (Calls_node (Heap g ! node))
                                             (calledFuncName \<mapsto> calledNode)\<rparr>];
                   h2 = h1[calledNode := (h1 ! calledNode)
                           \<lparr>CalledBy := (CalledBy (h1 ! calledNode))
                                           (funcFullName \<mapsto> node)\<rparr>]
               in g\<lparr>Heap := h2\<rparr>)))"

text \<open>
  The second loop of \<^verbatim>\<open>BuildCallGraph\<close>: the first error ends the build. \<open>node\<close>
  is the caller's pointer as the map gives it; were it nil, the first edge to insert
  would dereference it.
\<close>

fun addCalls ::
  "GraphWorld \<Rightarrow> string \<Rightarrow> FunctionInfo list \<Rightarrow> CallGraph \<Rightarrow> CallGraph outcome" where
  "addCalls w projectRoot [] graph = Ok graph"
| "addCalls w projectRoot (fi # functions) graph =
     (let funcFullName = getFunctionFullName fi
      in (case GetFunctionWithComments w fi projectRoot of
            Inl e \<Rightarrow> Error e
          | Inr funcCode \<Rightarrow>
              (case GetFunctionCalls w funcCode fi projectRoot of
                 Panic \<Rightarrow> Panic
               | Error e \<Rightarrow> Error e
               | Ok calls \<Rightarrow>
                   (case Nodes graph funcFullName of
                      None \<Rightarrow>
                        (if calls = [] then addCalls w projectRoot functions graph
                         else Panic)
                    | Some node \<Rightarrow>
                        addCalls w projectRoot functions
                          (foldl (addEdge funcFullName node) graph calls)))))"

definition createNodes :: "FunctionInfo list \<Rightarrow> CallGraph" where
  "createNodes functions =
     foldl (\<lambda>graph fi. ensureNode (getFunctionFullName fi) graph)
       \<lparr>Nodes = Map.empty, Heap = []\<rparr> functions"

definition BuildCallGraph ::
  "GraphWorld \<Rightarrow> FunctionInfo list \<Rightarrow> string \<Rightarrow> CallGraph outcome" where
  "BuildCallGraph w functions projectRoot =
     addCalls w projectRoot functions (createNodes functions)"


text \<open>
  The graph is well formed when every key points to a node of the heap that carries
  that key as its name, every node of the heap is filed under its name, and every
  entry of a \<open>Calls\<close> map has its mirror entry in the \<open>CalledBy\<close> map of the
  node it points to, and the other way round.
\<close>

definition graphInvariant :: "CallGraph \<Rightarrow> bool" where
  "graphInvariant g =
     ((\<forall>k a. Nodes g k = Some a \<longrightarrow> a < length (Heap g) \<and> Name_node (Heap g ! a) = k)
      \<and> (\<forall>a < length (Heap g). Nodes g (Name_node (Heap g ! a)) = Some a)
      \<and> (\<forall>a < length (Heap g). \<forall>k b. Calls_node (Heap g ! a) k = Some b \<longrightarrow>
            Nodes g k = Some b \<and> CalledBy (Heap g ! b) (Name_node (Heap g ! a)) = Some a)
      \<and> (\<forall>b < length (Heap g). \<forall>k a. CalledBy (Heap g ! b) k = Some a \<longrightarrow>
            Nodes g k = Some a \<and> Calls_node (Heap g ! a) (Name_node (Heap g ! b)) = Some b))"


section \<open>Coverage (coverage.go)\<close>

record CoverageBlock =
  StartLine :: int
  StartCol :: int
  EndLine_cb :: int
  EndCol :: int
  Count :: int

type_synonym CoverageData = "string \<rightharpoonup> CoverageBlock list"

text \<open>The loop of \<^verbatim>\<open>isFunctionCovered\<close>: the first block with a positive count ends it.\<close>

fun anyBlockExecuted :: "CoverageBlock list \<Rightarrow> bool" where
  "anyBlockExecuted [] = False"
| "anyBlockExecuted (block # blocks) =
     (if Count block > 0 then True else anyBlockExecuted blocks)"

definition isFunctionCovered :: "FuncDecl \<Rightarrow> CoverageBlock list \<Rightarrow> bool" where
  "isFunctionCovered fn blocks =
     (if Body fn = None then False else anyBlockExecuted blocks)"

definition untestedInfo :: "string \<Rightarrow> FuncDecl \<Rightarrow> string list \<Rightarrow> FunctionInfo_lf" where
  "untestedInfo filePath fn params =
     \<lparr>FileName = filePath, FuncName = DeclName fn, Line_lf = PosLine fn,
      PkgName_lf = [], Parameters_lf = params, Returns_lf = [],
      Externals = [], FunctionCalls = []\<rparr>"

text \<open>
  The callback \<^verbatim>\<open>ListUntestedFunctions\<close> gives to \<^verbatim>\<open>ast.Inspect\<close>, at a function
  declaration of the file \<open>filePath\<close>; \<open>untested\<close> is the list built so far.
\<close>

definition inspectFuncDecl ::
  "CoverageData \<Rightarrow> string \<Rightarrow> FunctionInfo_lf list \<Rightarrow> FuncDecl \<Rightarrow> FunctionInfo_lf list" where
  "inspectFuncDecl coverageData filePath untested fn =
     (case coverageData filePath of
        None \<Rightarrow>
          (case extractParameters fn of
             Inl e \<Rightarrow> untested
           | Inr params \<Rightarrow> untested @ [untestedInfo filePath fn params])
      | Some blocks \<Rightarrow>
          (if \<not> isFunctionCovered fn blocks
           then (case extractParameters fn of
                   Inl e \<Rightarrow> untested
                 | Inr params \<Rightarrow> untested @ [untestedInfo filePath fn params])
           else untested))"

text \<open>
  The walk of \<^verbatim>\<open>ListUntestedFunctions\<close>. \<open>files\<close> are the files the walk reaches that
  pass its filter (not under \<^verbatim>\<open>vendor\<close>, \<^verbatim>\<open>.go\<close>, not \<^verbatim>\<open>_test.go\<close>), in walk
  order, each with the parser's result (\<open>None\<close>: the file does not parse and is
  skipped). \<open>parsed\<close> is the result of \<^verbatim>\<open>parseCoverageFile\<close>.
\<close>

fun walkUntested ::
  "CoverageData \<Rightarrow> (string \<times> GoFile option) list \<Rightarrow> FunctionInfo_lf list \<Rightarrow> FunctionInfo_lf list" where
  "walkUntested coverageData [] untested = untested"
| "walkUntested coverageData ((path, parsed) # files) untested =
     (case parsed of
        None \<Rightarrow> walkUntested coverageData files untested
      | Some file \<Rightarrow>
          walkUntested coverageData files
            (foldl (inspectFuncDecl coverageData path) untested (Decls file)))"

definition ListUntestedFunctions ::
  "CoverageData option \<Rightarrow> (string \<times> GoFile option) list \<Rightarrow> error + FunctionInfo_lf list" where
  "ListUntestedFunctions parsed files =
     (case parsed of
        None \<Rightarrow> Inl CoverageFileError
      | Some coverageData \<Rightarrow> Inr (walkUntested coverageData files []))"

text \<open>Two line ranges overlap when neither ends before the other starts.\<close>

definition overlaps :: "int \<Rightarrow> int \<Rightarrow> CoverageBlock \<Rightarrow> bool" where
  "overlaps start end_line block = (StartLine block \<le> end_line \<and> start \<le> EndLine_cb block)"


section \<open>Sample inputs\<close>

text \<open>A listed function \<^verbatim>\<open>f\<close> of package \<^verbatim>\<open>main\<close> in \<^verbatim>\<open>a.go\<close>, not yet analysed.\<close>

definition sampleFn :: FunctionInfo_lf where
  "sampleFn = \<lparr>FileName = ''a.go'', FuncName = ''f'', Line_lf = 1, PkgName_lf = ''main'',
      Parameters_lf = [], Returns_lf = [], Externals = [], FunctionCalls = []\<rparr>"

text \<open>A resolver that knows one internal function, \<^verbatim>\<open>main.helper\<close>, and no import.\<close>

definition sampleResolver :: Resolver where
  "sampleResolver = \<lparr>internalFuncs = [''main.helper'' \<mapsto> 0], importMap = Map.empty,
      stdPkgs = [], modulePath = ''example.com/m''\<rparr>"

text \<open>
  The body \<^verbatim>\<open>{ len(xs); v.Fn(); func() {}() }\<close>: three statements, each a call.
\<close>

definition sampleBody :: node where
  "sampleBody = Other ''{ ... }''
     [Other ''len(xs)'' [CallExpr 2 (Ident ''len'') [Ident ''xs'']],
      Other ''v.Fn()'' [CallExpr 3 (SelectorExpr (Ident ''v'') ''Fn'') []],
      Other ''func() {}()''
        [CallExpr 4 (FuncLit ''func() {}'' (Other ''func()'' []) (Other ''{}'' [])) []]]"

definition sampleFile :: GoFile where
  "sampleFile = \<lparr>PackageName = ''main'', Imports = [],
      Decls = [\<lparr>DeclName = ''f'', Recv = None, Params = [], Results = None,
                Body = Some sampleBody, PosLine = 1, EndLine = 5, Printed = None\<rparr>]\<rparr>"








text \<open>A file whose function \<^verbatim>\<open>f\<close> has the body \<^verbatim>\<open>{ v.Fn() }\<close> and no import.\<close>

definition methodCallFile :: GoFile where
  "methodCallFile = \<lparr>PackageName = ''main'', Imports = [],
      Decls = [\<lparr>DeclName = ''f'', Recv = None, Params = [], Results = None,
                Body = Some (Other ''{ v.Fn() }''
                  [Other ''v.Fn()'' [CallExpr 2 (SelectorExpr (Ident ''v'') ''Fn'') []]]),
                PosLine = 1, EndLine = 3, Printed = None\<rparr>]\<rparr>"


text \<open>
  The two files of a small project: \<^verbatim>\<open>a.go\<close> declares \<^verbatim>\<open>func A() { B() }\<close> and
  \<^verbatim>\<open>b.go\<close> declares \<^verbatim>\<open>func B() {}\<close>, both in package \<^verbatim>\<open>main\<close>. In
  \<open>reparseWorld\<close> the second read of \<^verbatim>\<open>b.go\<close> does not parse. \<open>graphWorld\<close> is
  the project as the graph tools find it under \<^verbatim>\<open>/proj\<close>; in \<open>brokenWorld\<close> the
  file \<^verbatim>\<open>b.go\<close> has been damaged and no longer parses.
\<close>

definition declA :: FuncDecl where
  "declA = \<lparr>DeclName = ''A'', Recv = None, Params = [], Results = None,
     Body = Some (Other ''{ B() }'' [Other ''B()'' [CallExpr 3 (Ident ''B'') []]]),
     PosLine = 3, EndLine = 3, Printed = Some ''func A() { B() }''\<rparr>"

definition declB :: FuncDecl where
  "declB = \<lparr>DeclName = ''B'', Recv = None, Params = [], Results = None,
     Body = Some (Other ''{}'' []), PosLine = 3, EndLine = 3, Printed = Some ''func B() {}''\<rparr>"

definition fileA :: GoFile where
  "fileA = \<lparr>PackageName = ''main'', Imports = [], Decls = [declA]\<rparr>"

definition fileB :: GoFile where
  "fileB = \<lparr>PackageName = ''main'', Imports = [], Decls = [declB]\<rparr>"

definition srcA :: string where
  "srcA = ''package main'' @ [CHR 0x0A] @ ''func A() { B() }''"

definition srcB :: string where
  "srcB = ''package main'' @ [CHR 0x0A] @ ''func B() {}''"




definition fiA :: FunctionInfo where
  "fiA = \<lparr>RelativeFilePath = ''a.go'', PkgName = ''main'', Name = ''A'', StructName = [],
     Parameters = [], Returns = [], LineNumberStart = 3, LineNumberEnd = 3\<rparr>"

definition fiB :: FunctionInfo where
  "fiB = \<lparr>RelativeFilePath = ''b.go'', PkgName = ''main'', Name = ''B'', StructName = [],
     Parameters = [], Returns = [], LineNumberStart = 3, LineNumberEnd = 3\<rparr>"

definition graphWorld :: GraphWorld where
  "graphWorld = \<lparr>Getwd_g = Some ''/proj'', JoinPath = (\<lambda>a b. a @ ''/'' @ b),
     NotExist = (\<lambda>p. p \<noteq> ''/proj/a.go'' \<and> p \<noteq> ''/proj/b.go''),
     ReadFile = (\<lambda>p. if p = ''/proj/a.go'' then Some srcA
                       else if p = ''/proj/b.go'' then Some srcB else None),
     ParseSrc = (\<lambda>s. if s = srcA then Some fileA
                       else if s = srcB then Some fileB else None)\<rparr>"


definition graphAB :: CallGraph where
  "graphAB = \<lparr>Nodes = [''A'' \<mapsto> 0, ''B'' \<mapsto> 1],
     Heap = [\<lparr>Name_node = ''A'', Calls_node = [''B'' \<mapsto> 1], CalledBy = Map.empty\<rparr>,
             \<lparr>Name_node = ''B'', Calls_node = Map.empty, CalledBy = [''A'' \<mapsto> 0]\<rparr>]\<rparr>"



section \<open>Properties of the coverage analysis\<close>

lemma anyBlockExecuted_iff: "anyBlockExecuted blocks = (\<exists>b \<in> set blocks. Count b > 0)"
  by (induction blocks) auto

lemma isFunctionCovered_iff:
  "isFunctionCovered fn blocks = (Body fn \<noteq> None \<and> (\<exists>b \<in> set blocks. Count b > 0))"
  by (simp add: isFunctionCovered_def anyBlockExecuted_iff)

text \<open>
  C1. The claim: a function is marked covered only if a block that overlaps the
  function's own line span has a positive hit count, so a function on lines 10 to 20
  is untested when the only block of its file is on lines 25 to 30 with count 5.
  The code never looks at the span. At that input \<^verbatim>\<open>isFunctionCovered\<close> answers
  true although the block does not overlap the function, and
  \<^verbatim>\<open>ListUntestedFunctions\<close> reports no untested function.
\<close>

theorem C1_covered_without_overlap:
  "isFunctionCovered
     \<lparr>DeclName = ''F'', Recv = None, Params = [], Results = None,
      Body = Some (Other ''{ }'' []), PosLine = 10, EndLine = 20, Printed = None\<rparr>
     [\<lparr>StartLine = 25, StartCol = 1, EndLine_cb = 30, EndCol = 2, Count = 5\<rparr>]
   \<and> \<not> overlaps 10 20 \<lparr>StartLine = 25, StartCol = 1, EndLine_cb = 30, EndCol = 2, Count = 5\<rparr>
   \<and> ListUntestedFunctions
       (Some [''a.go'' \<mapsto> [\<lparr>StartLine = 25, StartCol = 1, EndLine_cb = 30, EndCol = 2, Count = 5\<rparr>]])
       [(''a.go'', Some \<lparr>PackageName = ''main'', Imports = [],
          Decls = [\<lparr>DeclName = ''F'', Recv = None, Params = [], Results = None,
                    Body = Some (Other ''{ }'' []), PosLine = 10, EndLine = 20,
                    Printed = None\<rparr>]\<rparr>)]
     = Inr []"
  by (simp add: isFunctionCovered_def overlaps_def ListUntestedFunctions_def
      inspectFuncDecl_def)

text \<open>
  C10. A function declaration without a body is never covered, whatever the blocks
  of its file are. In the walk it is therefore appended to the untested functions,
  whether or not its file has coverage data (provided its parameters print).
\<close>

theorem C10_no_body_untested:
  assumes "Body fn = None" and "extractParameters fn = Inr params"
  shows "\<not> isFunctionCovered fn blocks
    \<and> inspectFuncDecl coverageData filePath untested fn
        = untested @ [untestedInfo filePath fn params]"
  using assms
  by (auto simp: isFunctionCovered_def inspectFuncDecl_def split: option.splits)

theorem C10_no_body_untested_witness:
  "Body \<lparr>DeclName = ''Sqrt'', Recv = None,
          Params = [\<lparr>Names = [''x''], FieldType = TIdent ''float64''\<rparr>],
          Results = None, Body = None, PosLine = 3, EndLine = 3, Printed = None\<rparr> = None
   \<and> \<not> isFunctionCovered
        \<lparr>DeclName = ''Sqrt'', Recv = None,
         Params = [\<lparr>Names = [''x''], FieldType = TIdent ''float64''\<rparr>],
         Results = None, Body = None, PosLine = 3, EndLine = 3, Printed = None\<rparr>
        [\<lparr>StartLine = 1, StartCol = 1, EndLine_cb = 9, EndCol = 2, Count = 7\<rparr>]
   \<and> inspectFuncDecl
        [''m.go'' \<mapsto> [\<lparr>StartLine = 1, StartCol = 1, EndLine_cb = 9, EndCol = 2, Count = 7\<rparr>]]
        ''m.go'' []
        \<lparr>DeclName = ''Sqrt'', Recv = None,
         Params = [\<lparr>Names = [''x''], FieldType = TIdent ''float64''\<rparr>],
         Results = None, Body = None, PosLine = 3, EndLine = 3, Printed = None\<rparr>
      = [\<lparr>FileName = ''m.go'', FuncName = ''Sqrt'', Line_lf = 3, PkgName_lf = [],
          Parameters_lf = [''x float64''], Returns_lf = [], Externals = [],
          FunctionCalls = []\<rparr>]"
  using C10_no_body_untested
    [of "\<lparr>DeclName = ''Sqrt'', Recv = None,
         Params = [\<lparr>Names = [''x''], FieldType = TIdent ''float64''\<rparr>],
         Results = None, Body = None, PosLine = 3, EndLine = 3, Printed = None\<rparr>"
        "[''x float64'']"
        "[\<lparr>StartLine = 1, StartCol = 1, EndLine_cb = 9, EndCol = 2, Count = 7\<rparr>]"
        "[''m.go'' \<mapsto> [\<lparr>StartLine = 1, StartCol = 1, EndLine_cb = 9, EndCol = 2, Count = 7\<rparr>]]"
        "''m.go''" "[]"]
  by (simp add: extractParameters_def untestedInfo_def)


section \<open>The two walks are walks of Inspect\<close>

lemma recordCall_simps:
  "recordCall imps path (Ident n) calls = (True, calls)"
  "recordCall imps path (SelectorExpr x sel) calls = (True, calls)"
  "recordCall imps path (CallExpr line target args) calls
     = (False, calls @ [extractCallInfo imps path line target args])"
  "recordCall imps path (FuncLit printed ftype body) calls = (True, calls)"
  "recordCall imps path (Other printed children) calls = (True, calls)"
  by (simp_all add: recordCall_def)

lemma resolveCall_simps:
  "resolveCall r (Ident n) fn = (True, fn)"
  "resolveCall r (SelectorExpr x sel) fn = (True, fn)"
  "resolveCall r (CallExpr line target args) fn = (True, visitCallExpr r target fn)"
  "resolveCall r (FuncLit printed ftype body) fn = (True, fn)"
  "resolveCall r (Other printed children) fn = (True, fn)"
  by (simp_all add: resolveCall_def)

lemma fold_append_concat:
  "(\<And>x s. x \<in> set xs \<Longrightarrow> g x s = s @ h x) \<Longrightarrow> fold g xs s = s @ concat (map h xs)"
  by (induction xs arbitrary: s) auto

lemma fold_cong_set: "(\<And>x s. x \<in> set xs \<Longrightarrow> g x s = h x s) \<Longrightarrow> fold g xs s = fold h xs s"
  by (induction xs arbitrary: s) auto

lemma extractNestedCalls_Inspect:
  "Inspect (recordCall imps path) n calls = calls @ extractNestedCalls imps path n"
proof (induction n arbitrary: calls)
  case (Other printed children)
  have "fold (Inspect (recordCall imps path)) children calls
      = calls @ concat (map (extractNestedCalls imps path) children)"
    using Other by (intro fold_append_concat) simp
  then show ?case by (simp add: recordCall_simps)
qed (simp_all add: recordCall_simps extractCallInfo_def)

lemma inspectCalls_Inspect:
  "Inspect (resolveCall r) n fn = inspectCalls r n fn"
proof (induction n arbitrary: fn)
  case (CallExpr line target args)
  have "fold (Inspect (resolveCall r)) args s = fold (inspectCalls r) args s" for s
    using CallExpr(2) by (intro fold_cong_set) simp
  then show ?case using CallExpr(1) by (simp add: resolveCall_simps)
next
  case (Other printed children)
  have "fold (Inspect (resolveCall r)) children s = fold (inspectCalls r) children s" for s
    using Other by (intro fold_cong_set) simp
  then show ?case by (simp add: resolveCall_simps)
qed (simp_all add: resolveCall_simps)


section \<open>Properties of the listing resolver and of call extraction\<close>

lemma visitCallExpr_cases:
  "visitCallExpr r target fn = fn
     \<or> (\<exists>d. visitCallExpr r target fn = addCall d fn)
     \<or> (\<exists>e. visitCallExpr r target fn = addExternal e fn)"
  by (induction r target fn rule: visitCallExpr.induct) (auto split: option.splits)

lemma visitCallExpr_other_target:
  "(\<forall>n. target \<noteq> Ident n) \<and> (\<forall>n sel. target \<noteq> SelectorExpr (Ident n) sel)
     \<longrightarrow> visitCallExpr r target fn = fn"
  by (induction r target fn rule: visitCallExpr.induct) auto

lemma extractCallInfo_package_or_receiver:
  "Package (extractCallInfo imports path line target args) = []
     \<or> Receiver (extractCallInfo imports path line target args) = []"
  by (induction target "imports" rule: getFunctionName.induct)
     (auto simp: extractCallInfo_def callInfo_def)




text \<open>
  C3. The claim: every call expression of a function body is recorded as exactly
  one of the five kinds of call site, none is dropped. In \<^verbatim>\<open>analyzeFunctionCalls\<close> a
  body with the three calls \<^verbatim>\<open>len(xs)\<close>, \<^verbatim>\<open>v.Fn()\<close> and \<^verbatim>\<open>func() {}()\<close> leaves the
  function with no call and no external reference: all three are dropped.
\<close>

theorem C3_calls_dropped:
  "analyzeFunctionCalls (\<lambda>p. if p = ''a.go'' then Parsed sampleFile else ReadFails)
     sampleFn [''main.helper'' \<mapsto> 0] [] ''example.com/m'' = Ok sampleFn
   \<and> FunctionCalls sampleFn = [] \<and> Externals sampleFn = []"
  by (simp add: analyzeFunctionCalls_def sampleFile_def sampleFn_def sampleBody_def
      builtInFuncs_def)

text \<open>
  C3, as the code has it. \<^verbatim>\<open>analyzeFunctionCalls\<close> records a call expression at most
  once, as one internal call or as one external reference; it records nothing when
  the target is neither an identifier nor a selector on an identifier, when it is a
  built-in, and when the selector's identifier is no import alias or the alias of a
  standard package. \<^verbatim>\<open>GetFunctionCalls\<close> records every call expression its walk
  reaches exactly once, and the record never has both a package and a receiver.
\<close>

theorem C3_recorded_at_most_once:
  "(visitCallExpr r target fn = fn
     \<or> (\<exists>calledFunc. visitCallExpr r target fn = addCall calledFunc fn)
     \<or> (\<exists>external. visitCallExpr r target fn = addExternal external fn))
   \<and> ((\<forall>n. target \<noteq> Ident n) \<and> (\<forall>n sel. target \<noteq> SelectorExpr (Ident n) sel)
        \<longrightarrow> visitCallExpr r target fn = fn)
   \<and> (n \<in> set builtInFuncs \<longrightarrow> visitCallExpr r (Ident n) fn = fn)
   \<and> (importMap r x = None \<or> (\<exists>p. importMap r x = Some p \<and> p \<in> set (stdPkgs r))
        \<longrightarrow> visitCallExpr r (SelectorExpr (Ident x) sel) fn = fn)
   \<and> extractNestedCalls imports path (CallExpr line target args)
        = [extractCallInfo imports path line target args]
   \<and> (Package (extractCallInfo imports path line target args) = []
        \<or> Receiver (extractCallInfo imports path line target args) = [])"
  using visitCallExpr_cases [of r target fn] visitCallExpr_other_target [of target r fn]
    extractCallInfo_package_or_receiver [of "imports" path line target args]
  by (auto simp: extractCallInfo_def split: option.splits)

theorem C3_recorded_at_most_once_witness:
  "visitCallExpr sampleResolver (FuncLit ''func() {}'' (Other ''func()'' []) (Other ''{}'' []))
      sampleFn = sampleFn
   \<and> ''len'' \<in> set builtInFuncs
   \<and> visitCallExpr sampleResolver (Ident ''len'') sampleFn = sampleFn
   \<and> importMap sampleResolver ''v'' = None
   \<and> visitCallExpr sampleResolver (SelectorExpr (Ident ''v'') ''Fn'') sampleFn = sampleFn
   \<and> extractNestedCalls {} ''a.go''
        (CallExpr 4 (FuncLit ''func() {}'' (Other ''func()'' []) (Other ''{}'' [])) [])
      = [FunctionCallInfo ''func'' 4 [] ''func() {}()'' [] [] [] ''a.go'' []]"
  using C3_recorded_at_most_once
    [of sampleResolver "FuncLit ''func() {}'' (Other ''func()'' []) (Other ''{}'' [])"
        sampleFn "''len''" "''v''" "''Fn''" "{}" "''a.go''" 4 "[]"]
  by (simp add: sampleResolver_def builtInFuncs_def extractCallInfo_def callInfo_def)

text \<open>
  C4. A call whose target is a bare identifier: a built-in is not recorded;
  otherwise the identifier is looked up under the owner's package, and the call is
  recorded as a call of exactly the function the table holds there, or, when the
  table has none, as an external reference with empty package and import path.
\<close>

theorem C4_bare_identifier:
  "(funcName \<in> set builtInFuncs \<longrightarrow> visitCallExpr r (Ident funcName) fn = fn)
   \<and> (funcName \<notin> set builtInFuncs
        \<and> internalFuncs r (internalKey (PkgName_lf fn) funcName) = Some calledFunc
      \<longrightarrow> visitCallExpr r (Ident funcName) fn
            = fn\<lparr>FunctionCalls := FunctionCalls fn @ [calledFunc]\<rparr>)
   \<and> (funcName \<notin> set builtInFuncs
        \<and> internalFuncs r (internalKey (PkgName_lf fn) funcName) = None
      \<longrightarrow> visitCallExpr r (Ident funcName) fn
            = fn\<lparr>Externals := Externals fn @
                  [\<lparr>Name_ext = funcName, Type_ext = [], ImportPath_ext = []\<rparr>]\<rparr>)"
  by (simp add: addCall_def addExternal_def)

theorem C4_bare_identifier_witness:
  "''append'' \<in> set builtInFuncs
   \<and> visitCallExpr sampleResolver (Ident ''append'') sampleFn = sampleFn
   \<and> ''helper'' \<notin> set builtInFuncs
   \<and> internalFuncs sampleResolver (internalKey (PkgName_lf sampleFn) ''helper'') = Some 0
   \<and> visitCallExpr sampleResolver (Ident ''helper'') sampleFn
       = sampleFn\<lparr>FunctionCalls := [0]\<rparr>
   \<and> ''Missing'' \<notin> set builtInFuncs
   \<and> internalFuncs sampleResolver (internalKey (PkgName_lf sampleFn) ''Missing'') = None
   \<and> visitCallExpr sampleResolver (Ident ''Missing'') sampleFn
       = sampleFn\<lparr>Externals := [\<lparr>Name_ext = ''Missing'', Type_ext = [],
                                   ImportPath_ext = []\<rparr>]\<rparr>"
  using C4_bare_identifier [of "''append''" sampleResolver sampleFn]
    C4_bare_identifier [of "''helper''" sampleResolver sampleFn 0]
    C4_bare_identifier [of "''Missing''" sampleResolver sampleFn]
  by (simp add: sampleResolver_def sampleFn_def builtInFuncs_def internalKey_def)

text \<open>
  C5. The claim: a selector call on an identifier that is no import alias is
  classified as a method call with that identifier as receiver. The function \<^verbatim>\<open>f\<close>
  of \<open>methodCallFile\<close> has the body \<^verbatim>\<open>{ v.Fn() }\<close> and its file imports nothing;
  \<^verbatim>\<open>analyzeFunctionCalls\<close> returns the function as it was, with no call and no
  external reference: the call is dropped, not classified.
\<close>

theorem C5_listing_drops_method_call:
  "Imports methodCallFile = []
   \<and> analyzeFunctionCalls (\<lambda>p. if p = ''a.go'' then Parsed methodCallFile else ReadFails)
       sampleFn Map.empty [] ''example.com/m'' = Ok sampleFn
   \<and> FunctionCalls sampleFn = [] \<and> Externals sampleFn = []"
  by (simp add: analyzeFunctionCalls_def methodCallFile_def sampleFn_def)

text \<open>
  C5, as the code has it. A selector call \<^verbatim>\<open>v.Fn()\<close> whose \<^verbatim>\<open>v\<close> is an identifier
  that is no import alias: \<^verbatim>\<open>getFunctionName\<close> gives the method \<^verbatim>\<open>Fn\<close> with
  receiver text \<^verbatim>\<open>v\<close> and no package, and that is the one record call extraction
  (\<^verbatim>\<open>GetFunctionCalls\<close>) makes of it. The listing resolver
  (\<^verbatim>\<open>analyzeFunctionCalls\<close>) records neither a call nor an external reference
  for it.
\<close>

theorem C5_method_call:
  "(v \<notin> imports \<longrightarrow>
      getFunctionName (SelectorExpr (Ident v) sel) imports = (sel, [], v)
    \<and> (\<exists>c. extractNestedCalls imports path (CallExpr line (SelectorExpr (Ident v) sel) args)
             = [c]
          \<and> Function c = sel \<and> Receiver c = v \<and> Package c = []))
   \<and> (importMap r v = None \<longrightarrow> visitCallExpr r (SelectorExpr (Ident v) sel) fn = fn)"
  by (simp add: callInfo_def)

theorem C5_method_call_witness:
  "''v'' \<notin> {''fmt''}
   \<and> getFunctionName (SelectorExpr (Ident ''v'') ''Fn'') {''fmt''} = (''Fn'', [], ''v'')
   \<and> extractNestedCalls {''fmt''} ''a.go'' (CallExpr 3 (SelectorExpr (Ident ''v'') ''Fn'') [])
       = [FunctionCallInfo ''Fn'' 3 [] ''v.Fn()'' [] ''v'' [] ''a.go'' []]
   \<and> importMap sampleResolver ''v'' = None
   \<and> visitCallExpr sampleResolver (SelectorExpr (Ident ''v'') ''Fn'') sampleFn = sampleFn"
  using C5_method_call [of "''v''" "{''fmt''}" "''Fn''" "''a.go''" 3 "[]" sampleResolver sampleFn]
  by (simp add: sampleResolver_def callInfo_def)

text \<open>
  C6. For \<^verbatim>\<open>Outer(Inner1(), Inner2(x))\<close> call extraction gives one call site, that
  of the outer call, with the two inner calls as its nested call sites and nowhere
  else. The target of the outer call may be any expression: it is classified and
  never searched for calls.
\<close>

theorem C6_nested_calls:
  "extractNestedCalls imports path
     (Other block
        [Other stmt
           [CallExpr l0 (Ident ''Outer'')
              [CallExpr l1 (Ident ''Inner1'') [], CallExpr l2 (Ident ''Inner2'') [Ident ''x'']]]])
     = [FunctionCallInfo ''Outer'' l0
          [FunctionCallInfo ''Inner1'' l1 [] ''Inner1()'' [] [] [] path [],
           FunctionCallInfo ''Inner2'' l2 [] ''Inner2(x)'' [] [] [''x''] path []]
          ''Outer(Inner1(), Inner2(x))'' [] [] [''Inner1()'', ''Inner2(x)''] path []]
   \<and> extractNestedCalls imports path
       (CallExpr l0 outer [CallExpr l1 (Ident inner1) [], CallExpr l2 (Ident inner2) [Ident x]])
     = [extractCallInfo imports path l0 outer
          [CallExpr l1 (Ident inner1) [], CallExpr l2 (Ident inner2) [Ident x]]]
   \<and> Calls (extractCallInfo imports path l0 outer
          [CallExpr l1 (Ident inner1) [], CallExpr l2 (Ident inner2) [Ident x]])
     = [FunctionCallInfo inner1 l1 [] (inner1 @ ''()'') [] [] [] path [],
        FunctionCallInfo inner2 l2 [] (inner2 @ ''('' @ x @ '')'') [] [] [x] path []]"
  by (simp add: callInfo_def extractCallInfo_def split: prod.splits)


section \<open>Properties of the module path\<close>

text \<open>
  On a cleaned absolute path \<^verbatim>\<open>filepath.Join\<close> adds an element and \<^verbatim>\<open>filepath.Dir\<close>
  removes the last one; at the root \<^verbatim>\<open>filepath.Dir\<close> changes nothing.
\<close>

lemma Split_append: "Split (a @ sep # b) sep = Split a sep @ Split b sep"
  by (induction a) (auto simp: Split_nonempty split: list.splits)

lemma Split_no_sep: "sep \<notin> set c \<Longrightarrow> Split c sep = [c]"
  by (induction c) auto

lemma Split_join:
  "\<forall>c \<in> set cs. sep \<notin> set c \<Longrightarrow> cs \<noteq> [] \<Longrightarrow> Split (joinStrings cs [sep]) sep = cs"
proof (induction cs "[sep]" rule: joinStrings.induct)
  case 1
  then show ?case by simp
next
  case (2 x)
  then show ?case by (simp add: Split_no_sep)
next
  case (3 x y ys)
  then show ?case using Split_append [of x sep "joinStrings (y # ys) [sep]"]
    by (simp add: Split_no_sep)
qed


lemma foldl_proper:
  "\<forall>c \<in> set cs. properName c \<or> c = [] \<Longrightarrow>
   foldl (cleanStep r) out cs = out @ filter (\<lambda>c. c \<noteq> []) cs"
  by (induction cs arbitrary: out) (auto simp: cleanStep_def properName_def)

lemma Clean_rooted:
  "Clean (CHR ''/'' # t)
     = ''/'' @ joinStrings (foldl (cleanStep True) [] (Split t (CHR ''/''))) ''/''"
  by (simp add: Clean_def cleanStep_def)

lemma proper_no_sep: "\<forall>c \<in> set cs. properName c \<Longrightarrow> \<forall>c \<in> set cs. CHR ''/'' \<notin> set c"
  by (simp add: properName_def)

lemma filter_proper: "\<forall>c \<in> set cs. properName c \<Longrightarrow> filter (\<lambda>c. c \<noteq> []) cs = cs"
  by (induction cs) (auto simp: properName_def)

lemma kept_of_join:
  assumes "\<forall>c \<in> set cs. properName c"
  shows "foldl (cleanStep True) [] (Split (joinStrings cs ''/'') (CHR ''/'')) = cs"
proof (cases "cs = []")
  case True
  then show ?thesis by (simp add: cleanStep_def)
next
  case False
  then have "Split (joinStrings cs ''/'') (CHR ''/'') = cs"
    using Split_join [of cs "CHR ''/''"] proper_no_sep [OF assms] by simp
  then show ?thesis using foldl_proper [of cs True "[]"] assms filter_proper [OF assms] by simp
qed

lemma Clean_absPath: "\<forall>c \<in> set cs. properName c \<Longrightarrow> Clean (absPath cs) = absPath cs"
  by (simp add: absPath_def Clean_rooted kept_of_join)
















section \<open>Failures during call resolution\<close>










section \<open>The adjacency maps of the call graph\<close>

lemma heap_link:
  assumes nl: "node < length H" and cl: "cnode < length H"
    and h2: "h2 = (H[node := (H ! node)
                     \<lparr>Calls_node := (Calls_node (H ! node))(cn \<mapsto> cnode)\<rparr>])
           [cnode := (H[node := (H ! node)
                     \<lparr>Calls_node := (Calls_node (H ! node))(cn \<mapsto> cnode)\<rparr>] ! cnode)
              \<lparr>CalledBy := (CalledBy (H[node := (H ! node)
                     \<lparr>Calls_node := (Calls_node (H ! node))(cn \<mapsto> cnode)\<rparr>] ! cnode))
                 (ffn \<mapsto> (node::nat))\<rparr>]"
  shows "length h2 = length H"
    and "a < length H \<Longrightarrow> Name_node (h2 ! a) = Name_node (H ! a)"
    and "a < length H \<Longrightarrow> Calls_node (h2 ! a) =
      (if a = node then (Calls_node (H ! a))(cn \<mapsto> cnode) else Calls_node (H ! a))"
    and "a < length H \<Longrightarrow> CalledBy (h2 ! a) =
      (if a = cnode then (CalledBy (H ! a))(ffn \<mapsto> node) else CalledBy (H ! a))"
  using nl cl unfolding h2 by (simp_all add: nth_list_update)


lemma graphInvariant_link:
  assumes inv: "graphInvariant g"
    and n: "Nodes g ffn = Some node" and c: "Nodes g cn = Some cnode"
    and h2: "h2 = ((Heap g)[node := (Heap g ! node)
                     \<lparr>Calls_node := (Calls_node (Heap g ! node))(cn \<mapsto> cnode)\<rparr>])
           [cnode := ((Heap g)[node := (Heap g ! node)
                     \<lparr>Calls_node := (Calls_node (Heap g ! node))(cn \<mapsto> cnode)\<rparr>] ! cnode)
              \<lparr>CalledBy := (CalledBy ((Heap g)[node := (Heap g ! node)
                     \<lparr>Calls_node := (Calls_node (Heap g ! node))(cn \<mapsto> cnode)\<rparr>] ! cnode))
                 (ffn \<mapsto> node)\<rparr>]"
  shows "graphInvariant (g\<lparr>Heap := h2\<rparr>)"
proof -
  have w1: "\<And>k a. Nodes g k = Some a \<Longrightarrow> a < length (Heap g) \<and> Name_node (Heap g ! a) = k"
    and w2: "\<And>a. a < length (Heap g) \<Longrightarrow> Nodes g (Name_node (Heap g ! a)) = Some a"
    and w3: "\<And>a k b. a < length (Heap g) \<Longrightarrow> Calls_node (Heap g ! a) k = Some b \<Longrightarrow>
            Nodes g k = Some b \<and> CalledBy (Heap g ! b) (Name_node (Heap g ! a)) = Some a"
    and w4: "\<And>b k a. b < length (Heap g) \<Longrightarrow> CalledBy (Heap g ! b) k = Some a \<Longrightarrow>
            Nodes g k = Some a \<and> Calls_node (Heap g ! a) (Name_node (Heap g ! b)) = Some b"
    using inv unfolding graphInvariant_def by blast+
  have nl: "node < length (Heap g)" and nn: "Name_node (Heap g ! node) = ffn"
    using w1 [OF n] by auto
  have cl: "cnode < length (Heap g)" and cc: "Name_node (Heap g ! cnode) = cn"
    using w1 [OF c] by auto
  note len = heap_link(1) [OF nl cl h2]
  note nm = heap_link(2) [OF nl cl h2]
  note cs = heap_link(3) [OF nl cl h2]
  note cb = heap_link(4) [OF nl cl h2]
  have u1: "\<And>a. a < length (Heap g) \<Longrightarrow> Name_node (Heap g ! a) = ffn \<Longrightarrow> a = node"
    using w2 n by fastforce
  have u2: "\<And>a. a < length (Heap g) \<Longrightarrow> Name_node (Heap g ! a) = cn \<Longrightarrow> a = cnode"
    using w2 c by fastforce
  have i1: "\<forall>k a. Nodes g k = Some a \<longrightarrow> a < length h2 \<and> Name_node (h2 ! a) = k"
  proof (intro allI impI)
    fix k a assume "Nodes g k = Some a"
    from w1 [OF this] show "a < length h2 \<and> Name_node (h2 ! a) = k"
      using nm [of a] len by simp
  qed
  have i2: "\<forall>a < length h2. Nodes g (Name_node (h2 ! a)) = Some a"
  proof (intro allI impI)
    fix a assume "a < length h2"
    then have a: "a < length (Heap g)" using len by simp
    show "Nodes g (Name_node (h2 ! a)) = Some a"
      using w2 [OF a] nm [OF a] by simp
  qed
  have i3: "\<forall>a < length h2. \<forall>k b. Calls_node (h2 ! a) k = Some b \<longrightarrow>
            Nodes g k = Some b \<and> CalledBy (h2 ! b) (Name_node (h2 ! a)) = Some a"
  proof (intro allI impI)
    fix a k b assume "a < length h2" and h: "Calls_node (h2 ! a) k = Some b"
    then have a: "a < length (Heap g)" using len by simp
    show "Nodes g k = Some b \<and> CalledBy (h2 ! b) (Name_node (h2 ! a)) = Some a"
    proof (cases "a = node \<and> k = cn")
      case True
      then have "b = cnode" using h cs [OF a] by simp
      then show ?thesis using True c nn cb [OF cl] nm [OF nl] by simp
    next
      case False
      then have old: "Calls_node (Heap g ! a) k = Some b"
        using h cs [OF a] by (simp split: if_splits)
      from w3 [OF a old] have k: "Nodes g k = Some b"
        and r: "CalledBy (Heap g ! b) (Name_node (Heap g ! a)) = Some a" by simp_all
      from w1 [OF k] have b: "b < length (Heap g)" by simp
      show ?thesis
      proof (cases "b = cnode \<and> Name_node (Heap g ! a) = ffn")
        case True
        then have "a = node" using u1 [OF a] by simp
        then show ?thesis using k True cb [OF b] nm [OF a] by simp
      next
        case False
        then show ?thesis using k r cb [OF b] nm [OF a] by auto
      qed
    qed
  qed
  have i4: "\<forall>b < length h2. \<forall>k a. CalledBy (h2 ! b) k = Some a \<longrightarrow>
            Nodes g k = Some a \<and> Calls_node (h2 ! a) (Name_node (h2 ! b)) = Some b"
  proof (intro allI impI)
    fix b k a assume "b < length h2" and h: "CalledBy (h2 ! b) k = Some a"
    then have b: "b < length (Heap g)" using len by simp
    show "Nodes g k = Some a \<and> Calls_node (h2 ! a) (Name_node (h2 ! b)) = Some b"
    proof (cases "b = cnode \<and> k = ffn")
      case True
      then have "a = node" using h cb [OF b] by simp
      then show ?thesis using True n cc cs [OF nl] nm [OF cl] by simp
    next
      case False
      then have old: "CalledBy (Heap g ! b) k = Some a"
        using h cb [OF b] by (simp split: if_splits)
      from w4 [OF b old] have k: "Nodes g k = Some a"
        and r: "Calls_node (Heap g ! a) (Name_node (Heap g ! b)) = Some b" by simp_all
      from w1 [OF k] have a: "a < length (Heap g)" by simp
      show ?thesis
      proof (cases "a = node \<and> Name_node (Heap g ! b) = cn")
        case True
        then have "b = cnode" using u2 [OF b] by simp
        then show ?thesis using k True cs [OF a] nm [OF b] by simp
      next
        case False
        then show ?thesis using k r cs [OF a] nm [OF b] by auto
      qed
    qed
  qed
  have sel: "Heap (g\<lparr>Heap := h2\<rparr>) = h2" "Nodes (g\<lparr>Heap := h2\<rparr>) = Nodes g"
    by simp_all
  show ?thesis
    unfolding graphInvariant_def sel using i1 i2 i3 i4 by blast
qed


lemma graphInvariant_empty: "graphInvariant \<lparr>Nodes = Map.empty, Heap = []\<rparr>"
  by (simp add: graphInvariant_def)

lemma ensureNode_defined: "Nodes (ensureNode name g) name \<noteq> None"
  by (auto simp: ensureNode_def split: option.splits)

lemma ensureNode_keeps: "Nodes g k = Some a \<Longrightarrow> Nodes (ensureNode name g) k = Some a"
  by (auto simp: ensureNode_def split: option.splits)

lemma graphInvariant_ensureNode:
  assumes "graphInvariant g"
  shows "graphInvariant (ensureNode name g)"
proof (cases "Nodes g name")
  case (Some a)
  then show ?thesis using assms by (simp add: ensureNode_def)
next
  case None
  define h where "h = Heap g @ [\<lparr>Name_node = name, Calls_node = Map.empty, CalledBy = Map.empty\<rparr>]"
  define m where "m = (Nodes g)(name \<mapsto> length (Heap g))"
  have e: "ensureNode name g = \<lparr>Nodes = m, Heap = h\<rparr>"
    using None by (simp add: ensureNode_def h_def m_def)
  have w1: "\<And>k a. Nodes g k = Some a \<Longrightarrow> a < length (Heap g) \<and> Name_node (Heap g ! a) = k"
    and w2: "\<And>a. a < length (Heap g) \<Longrightarrow> Nodes g (Name_node (Heap g ! a)) = Some a"
    and w3: "\<And>a k b. a < length (Heap g) \<Longrightarrow> Calls_node (Heap g ! a) k = Some b \<Longrightarrow>
            Nodes g k = Some b \<and> CalledBy (Heap g ! b) (Name_node (Heap g ! a)) = Some a"
    and w4: "\<And>b k a. b < length (Heap g) \<Longrightarrow> CalledBy (Heap g ! b) k = Some a \<Longrightarrow>
            Nodes g k = Some a \<and> Calls_node (Heap g ! a) (Name_node (Heap g ! b)) = Some b"
    using assms unfolding graphInvariant_def by blast+
  have len: "length h = Suc (length (Heap g))" by (simp add: h_def)
  have old: "\<And>a. a < length (Heap g) \<Longrightarrow> h ! a = Heap g ! a"
    by (simp add: h_def nth_append)
  have new: "h ! length (Heap g) = \<lparr>Name_node = name, Calls_node = Map.empty, CalledBy = Map.empty\<rparr>"
    by (simp add: h_def)
  have fresh: "\<And>a. a < length (Heap g) \<Longrightarrow> Name_node (Heap g ! a) \<noteq> name"
    using w2 None by fastforce
  have mk: "\<And>k a. m k = Some a \<Longrightarrow>
      (k = name \<and> a = length (Heap g)) \<or> (k \<noteq> name \<and> Nodes g k = Some a)"
    by (auto simp: m_def split: if_splits)
  have km: "\<And>k a. Nodes g k = Some a \<Longrightarrow> m k = Some a"
    using None by (auto simp: m_def)
  have i1: "\<forall>k a. m k = Some a \<longrightarrow> a < length h \<and> Name_node (h ! a) = k"
  proof (intro allI impI)
    fix k a assume "m k = Some a"
    from mk [OF this] show "a < length h \<and> Name_node (h ! a) = k"
    proof
      assume "k = name \<and> a = length (Heap g)"
      then show ?thesis using new len by simp
    next
      assume "k \<noteq> name \<and> Nodes g k = Some a"
      then show ?thesis using w1 [of k a] old [of a] len by simp
    qed
  qed
  have i2: "\<forall>a < length h. m (Name_node (h ! a)) = Some a"
  proof (intro allI impI)
    fix a assume "a < length h"
    then have "a < length (Heap g) \<or> a = length (Heap g)" using len by auto
    then show "m (Name_node (h ! a)) = Some a"
    proof
      assume a: "a < length (Heap g)"
      show ?thesis using km [OF w2 [OF a]] old [OF a] by simp
    next
      assume "a = length (Heap g)"
      then show ?thesis using new by (simp add: m_def)
    qed
  qed
  have i3: "\<forall>a < length h. \<forall>k b. Calls_node (h ! a) k = Some b \<longrightarrow>
            m k = Some b \<and> CalledBy (h ! b) (Name_node (h ! a)) = Some a"
  proof (intro allI impI)
    fix a k b assume "a < length h" and c: "Calls_node (h ! a) k = Some b"
    then have "a < length (Heap g) \<or> a = length (Heap g)" using len by auto
    then show "m k = Some b \<and> CalledBy (h ! b) (Name_node (h ! a)) = Some a"
    proof
      assume a: "a < length (Heap g)"
      then have c': "Calls_node (Heap g ! a) k = Some b" using c old [OF a] by simp
      from w3 [OF a c'] have k: "Nodes g k = Some b"
        and r: "CalledBy (Heap g ! b) (Name_node (Heap g ! a)) = Some a" by simp_all
      from w1 [OF k] have b: "b < length (Heap g)" by simp
      show ?thesis using km [OF k] r old [OF a] old [OF b] by simp
    next
      assume "a = length (Heap g)"
      then show ?thesis using c new by simp
    qed
  qed
  have i4: "\<forall>b < length h. \<forall>k a. CalledBy (h ! b) k = Some a \<longrightarrow>
            m k = Some a \<and> Calls_node (h ! a) (Name_node (h ! b)) = Some b"
  proof (intro allI impI)
    fix b k a assume "b < length h" and c: "CalledBy (h ! b) k = Some a"
    then have "b < length (Heap g) \<or> b = length (Heap g)" using len by auto
    then show "m k = Some a \<and> Calls_node (h ! a) (Name_node (h ! b)) = Some b"
    proof
      assume b: "b < length (Heap g)"
      then have c': "CalledBy (Heap g ! b) k = Some a" using c old [OF b] by simp
      from w4 [OF b c'] have k: "Nodes g k = Some a"
        and r: "Calls_node (Heap g ! a) (Name_node (Heap g ! b)) = Some b" by simp_all
      from w1 [OF k] have a: "a < length (Heap g)" by simp
      show ?thesis using km [OF k] r old [OF a] old [OF b] by simp
    next
      assume "b = length (Heap g)"
      then show ?thesis using c new by simp
    qed
  qed
  have sel: "Heap \<lparr>Nodes = m, Heap = h\<rparr> = h" "Nodes \<lparr>Nodes = m, Heap = h\<rparr> = m"
    by simp_all
  show ?thesis
    unfolding e graphInvariant_def sel using i1 i2 i3 i4 by blast
qed

lemma graphInvariant_addEdge:
  assumes "graphInvariant g" and "Nodes g ffn = Some node"
  shows "graphInvariant (addEdge ffn node g call)"
proof -
  obtain cnode where c: "Nodes (ensureNode (calledName call) g) (calledName call) = Some cnode"
    using ensureNode_defined [of "calledName call" g] by auto
  have inv: "graphInvariant (ensureNode (calledName call) g)"
    using assms(1) by (rule graphInvariant_ensureNode)
  have n: "Nodes (ensureNode (calledName call) g) ffn = Some node"
    using assms(2) by (rule ensureNode_keeps)
  show ?thesis
    using graphInvariant_link [OF inv n c refl] c by (simp add: addEdge_def Let_def)
qed

lemma addEdge_keeps: "Nodes g k = Some a \<Longrightarrow> Nodes (addEdge ffn node g call) k = Some a"
  using ensureNode_keeps [of g k a "calledName call"]
  by (auto simp: addEdge_def Let_def split: option.splits)

lemma foldl_addEdge:
  "graphInvariant g \<Longrightarrow> Nodes g ffn = Some node \<Longrightarrow>
   graphInvariant (foldl (addEdge ffn node) g calls)
   \<and> (\<forall>k a. Nodes g k = Some a \<longrightarrow> Nodes (foldl (addEdge ffn node) g calls) k = Some a)"
proof (induction calls arbitrary: g)
  case Nil
  then show ?case by simp
next
  case (Cons call calls)
  have "graphInvariant (addEdge ffn node g call)"
    using Cons.prems by (rule graphInvariant_addEdge)
  moreover have "Nodes (addEdge ffn node g call) ffn = Some node"
    using Cons.prems(2) by (rule addEdge_keeps)
  ultimately show ?case
    using Cons.IH [of "addEdge ffn node g call"] addEdge_keeps by simp
qed

lemma addCalls_invariant:
  "graphInvariant g \<Longrightarrow> addCalls w root fis g = Ok g' \<Longrightarrow> graphInvariant g'"
proof (induction fis arbitrary: g)
  case Nil
  then show ?case by simp
next
  case (Cons fi fis)
  from Cons.prems(2) obtain funcCode calls where
    r: "(case Nodes g (getFunctionFullName fi) of
           None \<Rightarrow> (if calls = [] then addCalls w root fis g else Panic)
         | Some node \<Rightarrow>
             addCalls w root fis (foldl (addEdge (getFunctionFullName fi) node) g calls))
        = Ok g'"
    by (auto simp: Let_def split: sum.splits outcome.splits)
  show ?case
  proof (cases "Nodes g (getFunctionFullName fi)")
    case None
    then have "addCalls w root fis g = Ok g'"
      using r by (simp split: if_splits)
    then show ?thesis using Cons.IH Cons.prems(1) by blast
  next
    case (Some node)
    then have r': "addCalls w root fis
        (foldl (addEdge (getFunctionFullName fi) node) g calls) = Ok g'"
      using r by simp
    have "graphInvariant (foldl (addEdge (getFunctionFullName fi) node) g calls)"
      using foldl_addEdge [OF Cons.prems(1) Some] by simp
    then show ?thesis using Cons.IH r' by blast
  qed
qed

lemma createNodes_invariant: "graphInvariant (createNodes fis)"
proof -
  have "graphInvariant g \<Longrightarrow>
      graphInvariant (foldl (\<lambda>graph fi. ensureNode (getFunctionFullName fi) graph) g fis)" for g
    by (induction fis arbitrary: g) (auto intro: graphInvariant_ensureNode)
  then show ?thesis unfolding createNodes_def using graphInvariant_empty by blast
qed

lemma build_AB: "BuildCallGraph graphWorld [fiA, fiB] ''/proj'' = Ok graphAB"
  by (simp add: BuildCallGraph_def createNodes_def ensureNode_def getFunctionFullName_def
      GetFunctionWithComments_def GetFunctionCalls_def graphWorld_def fiA_def fiB_def
      srcA_def srcB_def fileA_def fileB_def declA_def declB_def addEdge_def calledName_def
      callInfo_def graphAB_def TrimPrefix_def Let_def)

text \<open>
  C9. In every graph \<^verbatim>\<open>BuildCallGraph\<close> returns, for nodes \<open>a\<close> and \<open>b\<close> filed
  under the keys \<open>keyA\<close> and \<open>keyB\<close>: node \<open>b\<close> is in the \<open>Calls\<close> map of
  \<open>a\<close> under \<open>keyB\<close> exactly when node \<open>a\<close> is in the \<open>CalledBy\<close> map of \<open>b\<close>
  under \<open>keyA\<close>.
\<close>

theorem C9_symmetric:
  assumes "BuildCallGraph w fis projectRoot = Ok graph"
    and "Nodes graph keyA = Some a" and "Nodes graph keyB = Some b"
  shows "(Calls_node (Heap graph ! a) keyB = Some b) = (CalledBy (Heap graph ! b) keyA = Some a)"
proof -
  have inv: "graphInvariant graph"
    using assms(1) createNodes_invariant addCalls_invariant
    unfolding BuildCallGraph_def by blast
  then have w1: "\<And>k a. Nodes graph k = Some a \<Longrightarrow>
        a < length (Heap graph) \<and> Name_node (Heap graph ! a) = k"
    and w3: "\<And>a k b. a < length (Heap graph) \<Longrightarrow> Calls_node (Heap graph ! a) k = Some b \<Longrightarrow>
        CalledBy (Heap graph ! b) (Name_node (Heap graph ! a)) = Some a"
    and w4: "\<And>b k a. b < length (Heap graph) \<Longrightarrow> CalledBy (Heap graph ! b) k = Some a \<Longrightarrow>
        Calls_node (Heap graph ! a) (Name_node (Heap graph ! b)) = Some b"
    unfolding graphInvariant_def by blast+
  show ?thesis
    using w1 [OF assms(2)] w1 [OF assms(3)] w3 [of a keyB b] w4 [of b keyA a] by auto
qed


theorem C9_symmetric_witness:
  "BuildCallGraph graphWorld [fiA, fiB] ''/proj'' = Ok graphAB
   \<and> Nodes graphAB ''A'' = Some 0 \<and> Nodes graphAB ''B'' = Some 1
   \<and> Calls_node (Heap graphAB ! 0) ''B'' = Some 1
   \<and> CalledBy (Heap graphAB ! 1) ''A'' = Some 0
   \<and> Calls_node (Heap graphAB ! 1) ''A'' = None
   \<and> CalledBy (Heap graphAB ! 0) ''B'' = None"
proof -
  have b: "BuildCallGraph graphWorld [fiA, fiB] ''/proj'' = Ok graphAB"
    by (rule build_AB)
  have a: "Nodes graphAB ''A'' = Some 0" and c: "Nodes graphAB ''B'' = Some 1"
    by (simp_all add: graphAB_def)
  show ?thesis
    using C9_symmetric [OF b a c] C9_symmetric [OF b c a] b a c
    by (simp add: graphAB_def)
qed


end
